theory Spec2Isabelle
  imports Main
begin

section \<open>Values crossing the boundary between the effect runtime and the query cache\<close>

text \<open>
  The adapter moves three kinds of values: the structured failure of an effect (a cause), the
  tagged outcome of a run (an exit) and whatever JavaScript throws or rejects with. A thrown
  value is untyped in the source (\<^verbatim>\<open>catch (e)\<close>), and a defect wraps any thrown
  value (\<^verbatim>\<open>Cause.die(e)\<close>), so causes and thrown values are mutually recursive.
  A promise object is identified by a number: what matters about a thrown promise is that
  the same object is thrown again.
\<close>

datatype 'e cause =
    Empty
  | Fail 'e
  | Die "'e js_value"
  | Interrupt
  | Sequential "'e cause" "'e cause"
  | Parallel "'e cause" "'e cause"
and 'e js_value =
    CauseV "'e cause"
  | PromiseV nat
  | ErrorV string
  | ParseErrorV string

datatype ('v, 'e) exit = Success 'v | Failure "'e cause"

datatype ('r, 'l) either = Left 'l | Right 'r

text \<open>\<^verbatim>\<open>Cause.isCause(e)\<close> and \<^verbatim>\<open>e instanceof Promise\<close> on a caught value.\<close>

fun isCause :: "'e js_value \<Rightarrow> bool" where
  "isCause (CauseV c) = True"
| "isCause (PromiseV p) = False"
| "isCause (ErrorV m) = False"
| "isCause (ParseErrorV m) = False"

fun instanceof_Promise :: "'e js_value \<Rightarrow> bool" where
  "instanceof_Promise (PromiseV p) = True"
| "instanceof_Promise (CauseV c) = False"
| "instanceof_Promise (ErrorV m) = False"
| "instanceof_Promise (ParseErrorV m) = False"

text \<open>
  The two readers of a cause that the claims speak of: the expected-error payload
  (the first declared error found in the cause, \<^verbatim>\<open>Cause.failureOption\<close>) and the
  presence of an interruption marker (\<^verbatim>\<open>Cause.isInterrupted\<close>).
\<close>

fun failureOption :: "'e cause \<Rightarrow> 'e option" where
  "failureOption Empty = None"
| "failureOption (Fail e) = Some e"
| "failureOption (Die d) = None"
| "failureOption Interrupt = None"
| "failureOption (Sequential l r) =
     (case failureOption l of Some e \<Rightarrow> Some e | None \<Rightarrow> failureOption r)"
| "failureOption (Parallel l r) =
     (case failureOption l of Some e \<Rightarrow> Some e | None \<Rightarrow> failureOption r)"

fun isInterrupted :: "'e cause \<Rightarrow> bool" where
  "isInterrupted Empty = False"
| "isInterrupted (Fail e) = False"
| "isInterrupted (Die d) = False"
| "isInterrupted Interrupt = True"
| "isInterrupted (Sequential l r) = (isInterrupted l \<or> isInterrupted r)"
| "isInterrupted (Parallel l r) = (isInterrupted l \<or> isInterrupted r)"

subsection \<open>Promises\<close>

text \<open>
  A promise is observed settled or not. \<^verbatim>\<open>p.then(f)\<close> with one handler: a resolved
  value goes through \<open>f\<close>, and what \<open>f\<close> throws becomes the rejection; a rejection and a
  promise that never settles pass through.
\<close>

datatype ('a, 'e) promise = Resolved 'a | Rejected "'e js_value" | Pending

fun then_promise :: "('a, 'e) promise \<Rightarrow> ('a \<Rightarrow> 'e js_value + 'b) \<Rightarrow> ('b, 'e) promise" where
  "then_promise (Resolved a) f = (case f a of Inl t \<Rightarrow> Rejected t | Inr b \<Rightarrow> Resolved b)"
| "then_promise (Rejected t) f = Rejected t"
| "then_promise Pending f = Pending"

subsection \<open>Schemas, spans, signals and the runtime handle\<close>

text \<open>
  A schema is the caller's pair of transforms. Each side may fail with a parse error
  message; \<^verbatim>\<open>Schema.encodeSync\<close> and \<^verbatim>\<open>Schema.decodeSync\<close> throw it. At run time the
  wire shape and the rich shape are both plain JavaScript values (the source casts
  between them), so one value type serves both.
\<close>

record 'v Schema =
  encode :: "'v \<Rightarrow> string + 'v"
  decode :: "'v \<Rightarrow> string + 'v"

definition encodeSync :: "'v Schema \<Rightarrow> 'v \<Rightarrow> 'e js_value + 'v" where
  "encodeSync sch d = (case encode sch d of Inl m \<Rightarrow> Inl (ParseErrorV m) | Inr w \<Rightarrow> Inr w)"

definition decodeSync :: "'v Schema \<Rightarrow> 'v \<Rightarrow> 'e js_value + 'v" where
  "decodeSync sch w = (case decode sch w of Inl m \<Rightarrow> Inl (ParseErrorV m) | Inr d \<Rightarrow> Inr d)"

text \<open>
  \<^verbatim>\<open>Effect.withSpan(name, { attributes })\<close> applied to an effect: the effect the runtime
  receives, with the span's name and attributes visible.
\<close>

datatype ('attr, 'eff) spanned = WithSpan string "(string \<times> 'attr) list" 'eff

definition withSpan :: "string \<Rightarrow> (string \<times> 'attr) list \<Rightarrow> 'eff \<Rightarrow> ('attr, 'eff) spanned" where
  "withSpan name attributes eff = WithSpan name attributes eff"

text \<open>
  An abort signal is one object of the cache layer (its identity) that fires at some
  moment of the run or never does.
\<close>

record AbortSignal =
  signal_id :: nat
  fires_at :: "nat option"

record QueryFunctionContext =
  signal :: AbortSignal

text \<open>
  The runtime is an argument of both translators; they use one method of it,
  \<^verbatim>\<open>runtime.runPromiseExit(effect, options?)\<close>, whose second argument carries the signal
  when there is one.
\<close>

record ('attr, 'eff, 'v, 'e) ManagedRuntime =
  runPromiseExit :: "('attr, 'eff) spanned \<Rightarrow> AbortSignal option \<Rightarrow> (('v, 'e) exit, 'e) promise"

section \<open>The option translators (options.ts)\<close>

text \<open>
  A descriptor carries its key, the function that makes the effect, the optional schema and
  the optional flag. The translators copy every other field of the descriptor unchanged
  (\<^verbatim>\<open>...options\<close>); the key stands for them in the produced records, whose
  \<^verbatim>\<open>queryFn\<close>, \<^verbatim>\<open>select\<close> and \<^verbatim>\<open>mutationFn\<close> are the fields the translators write.
\<close>

record ('k, 'eff, 'v) QueryOptions =
  queryKey :: 'k
  queryFn :: "unit \<Rightarrow> 'eff"
  schema :: "'v Schema option"
  consumeAbortSignal :: "bool option"

record ('k, 'v, 'e) UseQueryOptions =
  queryKey' :: 'k
  queryFn' :: "QueryFunctionContext \<Rightarrow> ('v, 'e) promise"
  select :: "'v \<Rightarrow> 'e js_value + 'v"

record ('k, 'vars, 'eff) MutationOptions =
  mutationKey :: "'k option"
  mutationFn :: "'vars \<Rightarrow> 'eff"

record ('k, 'vars, 'v, 'e) UseMutationOptions =
  mutationKey' :: "'k option"
  mutationFn' :: "'vars \<Rightarrow> ('v, 'e) promise"

definition runAbortablePromiseExit ::
  "('attr, 'eff, 'v, 'e) ManagedRuntime \<Rightarrow> AbortSignal option \<Rightarrow> ('attr, 'eff) spanned
     \<Rightarrow> (('v, 'e) exit, 'e) promise" where
  "runAbortablePromiseExit runtime sig effect = runPromiseExit runtime effect sig"

text \<open>
  The promise of the exit inside the produced fetch function: the piped expression before
  \<^verbatim>\<open>.then\<close>. \<^verbatim>\<open>!!options.consumeAbortSignal\<close> is true for the value \<^verbatim>\<open>true\<close> only;
  otherwise \<^verbatim>\<open>runtime.runPromiseExit\<close> is called with the effect alone.
\<close>

definition queryFn_exit ::
  "('k, 'eff, 'v) QueryOptions \<Rightarrow> ('k, 'eff, 'v, 'e) ManagedRuntime \<Rightarrow> bool
     \<Rightarrow> QueryFunctionContext \<Rightarrow> (('v, 'e) exit, 'e) promise" where
  "queryFn_exit options runtime suspense ctx =
     (if consumeAbortSignal options = Some True
      then runAbortablePromiseExit runtime (Some (signal ctx))
      else (\<lambda>effect. runPromiseExit runtime effect None))
       (withSpan (if suspense then ''useSuspenseQuery'' else ''useQuery'')
          [(''queryKey'', queryKey options)] (queryFn options ()))"

definition toQueryOptions ::
  "('k, 'eff, 'v) QueryOptions \<Rightarrow> ('k, 'eff, 'v, 'e) ManagedRuntime \<Rightarrow> bool
     \<Rightarrow> ('k, 'v, 'e) UseQueryOptions" where
  "toQueryOptions options runtime suspense =
     \<lparr> queryKey' = queryKey options,
       queryFn' = (\<lambda>ctx.
         then_promise (queryFn_exit options runtime suspense ctx)
           (\<lambda>exit. case exit of
                Success data \<Rightarrow>
                  (case schema options of
                     Some sch \<Rightarrow> encodeSync sch data
                   | None \<Rightarrow> Inr data)
              | Failure cause \<Rightarrow> Inl (CauseV cause))),
       select = (\<lambda>data. case schema options of
                     Some sch \<Rightarrow> decodeSync sch data
                   | None \<Rightarrow> Inr data) \<rparr>"

definition mutationFn_exit ::
  "('k, 'vars, 'eff) MutationOptions \<Rightarrow> ('k option, 'eff, 'v, 'e) ManagedRuntime \<Rightarrow> 'vars
     \<Rightarrow> (('v, 'e) exit, 'e) promise" where
  "mutationFn_exit options runtime vars =
     runPromiseExit runtime
       (withSpan ''useMutation'' [(''mutationKey'', mutationKey options)] (mutationFn options vars))
       None"

definition toMutationOptions ::
  "('k, 'vars, 'eff) MutationOptions \<Rightarrow> ('k option, 'eff, 'v, 'e) ManagedRuntime
     \<Rightarrow> ('k, 'vars, 'v, 'e) UseMutationOptions" where
  "toMutationOptions options runtime =
     \<lparr> mutationKey' = mutationKey options,
       mutationFn' = (\<lambda>vars.
         then_promise (mutationFn_exit options runtime vars)
           (\<lambda>exit. case exit of
                Success data \<Rightarrow> Inr data
              | Failure cause \<Rightarrow> Inl (CauseV cause))) \<rparr>"

section \<open>The hooks and the provider (runtime.tsx)\<close>

text \<open>
  \<^verbatim>\<open>React.useContext(RuntimeContext)\<close> yields the value of the nearest provider or the
  default \<^verbatim>\<open>null\<close>; the hooks receive it as \<open>ctx\<close>. The cache layer's primitives
  (\<^verbatim>\<open>_useQuery\<close>, \<^verbatim>\<open>_useSuspenseQuery\<close>, \<^verbatim>\<open>_useMutation\<close>) are arguments: the suspense
  primitive returns its result or throws a value. \<^verbatim>\<open>useMemo\<close> returns what its callback
  computes.
\<close>

definition useRuntime :: "'rt option \<Rightarrow> 'e js_value + 'rt" where
  "useRuntime ctx =
     (case ctx of
        None \<Rightarrow> Inl (ErrorV ''useRuntime must be used within a RuntimeProvider'')
      | Some runtime \<Rightarrow> Inr runtime)"

definition useQuery ::
  "(('k, 'v, 'e) UseQueryOptions \<Rightarrow> 'res) \<Rightarrow> ('k, 'eff, 'v, 'e) ManagedRuntime option
     \<Rightarrow> ('k, 'eff, 'v) QueryOptions \<Rightarrow> 'e js_value + 'res" where
  "useQuery prim ctx options =
     (case useRuntime ctx of
        Inl err \<Rightarrow> Inl err
      | Inr runtime \<Rightarrow> Inr (prim (toQueryOptions options runtime False)))"

text \<open>The caught value as a cause: \<^verbatim>\<open>Cause.isCause(e) ? e : Cause.die(e)\<close>.\<close>

fun asCause :: "'e js_value \<Rightarrow> 'e cause" where
  "asCause (CauseV c) = c"
| "asCause e = Die e"

definition useSuspenseQuery ::
  "(('k, 'v, 'e) UseQueryOptions \<Rightarrow> 'e js_value + 'res)
     \<Rightarrow> ('k, 'eff, 'v, 'e) ManagedRuntime option
     \<Rightarrow> ('k, 'eff, 'v) QueryOptions \<Rightarrow> 'e js_value + ('res, 'e cause) either" where
  "useSuspenseQuery prim ctx options =
     (case useRuntime ctx of
        Inl err \<Rightarrow> Inl err
      | Inr runtime \<Rightarrow>
          (case prim (toQueryOptions options runtime True) of
             Inr query \<Rightarrow> Inr (Right query)
           | Inl e \<Rightarrow>
               if instanceof_Promise e then Inl e
               else Inr (Left (asCause e))))"

definition useMutation ::
  "(('k, 'vars, 'v, 'e) UseMutationOptions \<Rightarrow> 'res)
     \<Rightarrow> ('k option, 'eff, 'v, 'e) ManagedRuntime option
     \<Rightarrow> ('k, 'vars, 'eff) MutationOptions \<Rightarrow> 'e js_value + 'res" where
  "useMutation prim ctx options =
     (case useRuntime ctx of
        Inl err \<Rightarrow> Inl err
      | Inr runtime \<Rightarrow> Inr (prim (toMutationOptions options runtime)))"

subsection \<open>The provider's lifecycle\<close>

text \<open>
  \<^verbatim>\<open>RuntimeProvider\<close> keeps three cells between renders: the \<^verbatim>\<open>useMemo\<close> cell of the
  runtime (dependencies \<^verbatim>\<open>[]\<close>), \<^verbatim>\<open>mountedRef\<close> and the cleanup that the last run of
  its effect returned. The module-level \<^verbatim>\<open>memoMap\<close> and the record of the
  \<^verbatim>\<open>runtime.dispose()\<close> calls made so far belong to the process. The construction
  \<^verbatim>\<open>ManagedRuntime.make(layer, memoMap)\<close> is the argument \<open>mk\<close>, a function of the memo
  table that returns the runtime and the table afterwards.

  The rendering library drives the component through three events: it renders it, it runs
  the effect callback after a commit (once per mount, since the dependency \<^verbatim>\<open>[runtime]\<close>
  never changes; a second time after the simulated unmount of its development-only strict
  mode), and it runs the cleanup that the last effect run returned, when there is one, at an
  unmount.
\<close>

record ('rt, 'm) process =
  memoMap :: 'm
  disposed :: "'rt list"

record 'rt provider =
  runtime_cell :: "'rt option"
  mountedRef :: bool
  cleanup :: "'rt option"

datatype lifecycle = Render | Commit | Unmount

definition initial_provider :: "'rt provider" where
  "initial_provider = \<lparr> runtime_cell = None, mountedRef = False, cleanup = None \<rparr>"

definition render ::
  "('m \<Rightarrow> 'rt \<times> 'm) \<Rightarrow> 'rt provider \<times> ('rt, 'm) process \<Rightarrow> 'rt provider \<times> ('rt, 'm) process" where
  "render mk s =
     (case s of (p, w) \<Rightarrow>
        (case runtime_cell p of
           Some runtime \<Rightarrow> (p, w)
         | None \<Rightarrow>
             (case mk (memoMap w) of (runtime, m) \<Rightarrow>
                (p\<lparr> runtime_cell := Some runtime \<rparr>, w\<lparr> memoMap := m \<rparr>))))"

text \<open>
  The effect callback. An effect runs after the render that filled the cell; before that
  there is nothing to run.
\<close>

definition run_effect :: "'rt provider \<times> ('rt, 'm) process \<Rightarrow> 'rt provider \<times> ('rt, 'm) process" where
  "run_effect s =
     (case s of (p, w) \<Rightarrow>
        (case runtime_cell p of
           None \<Rightarrow> (p, w)
         | Some runtime \<Rightarrow>
             if \<not> mountedRef p then (p\<lparr> mountedRef := True, cleanup := None \<rparr>, w)
             else (p\<lparr> cleanup := Some runtime \<rparr>, w)))"

definition run_cleanup :: "'rt provider \<times> ('rt, 'm) process \<Rightarrow> 'rt provider \<times> ('rt, 'm) process" where
  "run_cleanup s =
     (case s of (p, w) \<Rightarrow>
        (case cleanup p of
           None \<Rightarrow> (p, w)
         | Some runtime \<Rightarrow> (p\<lparr> cleanup := None \<rparr>, w\<lparr> disposed := disposed w @ [runtime] \<rparr>)))"

fun step ::
  "('m \<Rightarrow> 'rt \<times> 'm) \<Rightarrow> lifecycle \<Rightarrow> 'rt provider \<times> ('rt, 'm) process
     \<Rightarrow> 'rt provider \<times> ('rt, 'm) process" where
  "step mk Render s = render mk s"
| "step mk Commit s = run_effect s"
| "step mk Unmount s = run_cleanup s"

fun run_lifecycle ::
  "('m \<Rightarrow> 'rt \<times> 'm) \<Rightarrow> lifecycle list \<Rightarrow> 'rt provider \<times> ('rt, 'm) process
     \<Rightarrow> 'rt provider \<times> ('rt, 'm) process" where
  "run_lifecycle mk [] s = s"
| "run_lifecycle mk (ev # evs) s = run_lifecycle mk evs (step mk ev s)"

section \<open>The contracts of the effect library\<close>

text \<open>
  Modelled from the spec: the execution bridge \<^verbatim>\<open>runtime.runPromiseExit\<close> belongs to
  the effect library and is not among the repository's sources. The spec (4.2, 5) gives its
  contract: it runs the effect to a tagged outcome and resolves with it, never rejecting;
  if a signal is supplied and fires while the effect still runs, it cancels the run and
  resolves with an exit whose cause is an interruption marker; the span has no effect on the
  result. An effect is described by what a run of it does: it completes after some ticks
  with an exit, or it never completes.
\<close>

datatype ('v, 'e) effect = Completes nat "('v, 'e) exit" | Never

text \<open>
  Modelled from the spec: what the run resolves with when nothing cancels it (5: a run ends
  when the effect completes, fails or is interrupted, and not otherwise).
\<close>

fun uninterrupted :: "('v, 'e) effect \<Rightarrow> (('v, 'e) exit, 'e) promise" where
  "uninterrupted (Completes d ex) = Resolved ex"
| "uninterrupted Never = Pending"

text \<open>
  Modelled from the spec: the signal "later fires" (4.2) while the run is still under way,
  that is, before the tick at which the effect would complete.
\<close>

fun fires_mid_run :: "AbortSignal \<Rightarrow> ('v, 'e) effect \<Rightarrow> bool" where
  "fires_mid_run s (Completes d ex) = (case fires_at s of Some t \<Rightarrow> t < d | None \<Rightarrow> False)"
| "fires_mid_run s Never = (case fires_at s of Some t \<Rightarrow> True | None \<Rightarrow> False)"

text \<open>
  Modelled from the spec: the contract of 4.2 for \<open>run(effect, runtime, options?{signal})\<close>.
\<close>

definition run_bridge ::
  "('v, 'e) effect \<Rightarrow> AbortSignal option \<Rightarrow> (('v, 'e) exit, 'e) promise" where
  "run_bridge eff sig =
     (case sig of
        None \<Rightarrow> uninterrupted eff
      | Some s \<Rightarrow> if fires_mid_run s eff then Resolved (Failure Interrupt) else uninterrupted eff)"

text \<open>
  Modelled from the spec: the runtime handle whose \<^verbatim>\<open>runPromiseExit\<close> is that bridge; the
  span is instrumentation with no effect on the result (4.2).
\<close>

definition bridge_runtime :: "('attr, ('v, 'e) effect, 'v, 'e) ManagedRuntime" where
  "bridge_runtime =
     \<lparr> runPromiseExit = (\<lambda>spanned sig. case spanned of WithSpan name attrs eff \<Rightarrow> run_bridge eff sig) \<rparr>"

text \<open>
  Modelled from the spec: \<^verbatim>\<open>Layer.makeMemoMap\<close> and \<^verbatim>\<open>ManagedRuntime.make\<close> belong to
  the effect library and are not among the repository's sources. The spec (3, 4.1) gives
  the contract: \<open>build(layer, memoTable)\<close> builds, or reuses through the memo table, the
  capability set that the layer describes, so that a layer with a memo table yields the same
  constructed instance across runtime builds; the table starts empty and only grows. A
  capability instance is identified by a number, and each entry of the table records one
  construction.
\<close>

type_synonym 'l MemoMap = "('l \<times> nat) list"

record 'l built_runtime =
  rt_layer :: 'l
  capability :: nat

text \<open>
  Modelled from the spec: the memo table as \<^verbatim>\<open>Layer.makeMemoMap\<close> makes it, empty (3).
\<close>

definition makeMemoMap :: "'l MemoMap" where
  "makeMemoMap = []"

text \<open>
  Modelled from the spec: \<open>build(layer, memoTable)\<close> of 4.1, reusing the instance that the
  table holds for the layer and constructing, then recording, a new one otherwise.
\<close>

definition ManagedRuntime_make :: "'l \<Rightarrow> 'l MemoMap \<Rightarrow> 'l built_runtime \<times> 'l MemoMap" where
  "ManagedRuntime_make layer memo =
     (case map_of memo layer of
        Some inst \<Rightarrow> (\<lparr> rt_layer = layer, capability = inst \<rparr>, memo)
      | None \<Rightarrow>
          (\<lparr> rt_layer = layer, capability = length memo \<rparr>, memo @ [(layer, length memo)]))"

text \<open>The process as the module leaves it when loaded: \<^verbatim>\<open>memoMap\<close> made, nothing disposed.\<close>

definition module_loaded :: "('l built_runtime, 'l MemoMap) process" where
  "module_loaded = \<lparr> memoMap = makeMemoMap, disposed = [] \<rparr>"

section \<open>Concrete descriptors\<close>

text \<open>
  Descriptors over integer data with string errors, run on the bridge above. The three
  schemas: one whose transforms invert each other, one that refuses negative numbers on
  both sides (a refinement), and one whose encoding loses the low bit.
\<close>

definition shift_schema :: "int Schema" where
  "shift_schema = \<lparr> encode = (\<lambda>x. Inr (x + 1)), decode = (\<lambda>w. Inr (w - 1)) \<rparr>"

definition nonneg_schema :: "int Schema" where
  "nonneg_schema =
     \<lparr> encode = (\<lambda>x. if x < 0 then Inl ''negative'' else Inr x),
       decode = (\<lambda>w. if w < 0 then Inl ''negative'' else Inr w) \<rparr>"

definition halving_schema :: "int Schema" where
  "halving_schema = \<lparr> encode = (\<lambda>x. Inr (x div 2)), decode = (\<lambda>w. Inr (w * 2)) \<rparr>"

definition example_query ::
  "int Schema option \<Rightarrow> bool option \<Rightarrow> (int, string) effect
     \<Rightarrow> (string, (int, string) effect, int) QueryOptions" where
  "example_query sch consume eff =
     \<lparr> queryKey = ''items'', queryFn = (\<lambda>u. eff), schema = sch, consumeAbortSignal = consume \<rparr>"

definition example_mutation ::
  "(int \<Rightarrow> (int, string) effect) \<Rightarrow> (string, int, (int, string) effect) MutationOptions" where
  "example_mutation f = \<lparr> mutationKey = Some ''create'', mutationFn = f \<rparr>"

abbreviation query_runtime :: "(string, (int, string) effect, int, string) ManagedRuntime" where
  "query_runtime \<equiv> bridge_runtime"

abbreviation mutation_runtime ::
  "(string option, (int, string) effect, int, string) ManagedRuntime" where
  "mutation_runtime \<equiv> bridge_runtime"

definition quiet_ctx :: QueryFunctionContext where
  "quiet_ctx = \<lparr> signal = \<lparr> signal_id = 7, fires_at = None \<rparr> \<rparr>"

definition aborting_ctx :: QueryFunctionContext where
  "aborting_ctx = \<lparr> signal = \<lparr> signal_id = 7, fires_at = Some 1 \<rparr> \<rparr>"

text \<open>A suspense primitive that fetches once and reads the settled promise.\<close>

definition read_settled ::
  "(string, int, string) UseQueryOptions \<Rightarrow> string js_value + int" where
  "read_settled qo =
     (case queryFn' qo quiet_ctx of
        Resolved w \<Rightarrow> select qo w
      | Rejected t \<Rightarrow> Inl t
      | Pending \<Rightarrow> Inl (PromiseV 0))"

section \<open>What the produced fetch function does with an exit\<close>

lemma queryFn_exit_forward:
  "queryFn_exit options runtime suspense ctx =
     runPromiseExit runtime
       (WithSpan (if suspense then ''useSuspenseQuery'' else ''useQuery'')
          [(''queryKey'', queryKey options)] (queryFn options ()))
       (if consumeAbortSignal options = Some True then Some (signal ctx) else None)"
  by (simp add: queryFn_exit_def runAbortablePromiseExit_def withSpan_def)

lemma queryFn'_unfold:
  "queryFn' (toQueryOptions options runtime suspense) ctx =
     then_promise (queryFn_exit options runtime suspense ctx)
       (\<lambda>exit. case exit of
            Success data \<Rightarrow>
              (case schema options of Some sch \<Rightarrow> encodeSync sch data | None \<Rightarrow> Inr data)
          | Failure cause \<Rightarrow> Inl (CauseV cause))"
  by (simp add: toQueryOptions_def)

lemma select_unfold:
  "select (toQueryOptions options runtime suspense) data =
     (case schema options of Some sch \<Rightarrow> decodeSync sch data | None \<Rightarrow> Inr data)"
  by (simp add: toQueryOptions_def)

lemma example_query_schema: "schema (example_query sch consume eff) = sch"
  by (simp add: example_query_def)

lemma example_query_consume: "consumeAbortSignal (example_query sch consume eff) = consume"
  by (simp add: example_query_def)

lemma example_query_effect: "queryFn (example_query sch consume eff) u = eff"
  by (simp add: example_query_def)

lemma bridge_exit:
  "queryFn_exit (example_query sch consume eff) bridge_runtime suspense ctx =
     run_bridge eff (if consume = Some True then Some (signal ctx) else None)"
  by (simp add: queryFn_exit_forward example_query_def bridge_runtime_def)

text \<open>
  Claim C1, amended. When the run of the descriptor's effect succeeds with \<open>v\<close>: without a
  schema the fetch function resolves with \<open>v\<close> itself and \<open>select\<close> hands \<open>v\<close> on; with a
  schema whose encoding of \<open>v\<close> succeeds with \<open>w\<close>, the fetch function resolves with \<open>w\<close>, and
  \<open>select\<close> yields \<open>v\<close> from it when the schema decodes \<open>w\<close> back to \<open>v\<close>.
\<close>

theorem queryFn_success_encodes:
  assumes "queryFn_exit options runtime suspense ctx = Resolved (Success v)"
  shows "(schema options = None \<longrightarrow>
            queryFn' (toQueryOptions options runtime suspense) ctx = Resolved v
          \<and> select (toQueryOptions options runtime suspense) v = Inr v)
       \<and> (schema options = Some sch \<longrightarrow> encode sch v = Inr w \<longrightarrow>
            queryFn' (toQueryOptions options runtime suspense) ctx = Resolved w
          \<and> (decode sch w = Inr v \<longrightarrow>
               select (toQueryOptions options runtime suspense) w = Inr v))"
  using assms by (simp add: queryFn'_unfold select_unfold encodeSync_def decodeSync_def)

theorem queryFn_success_encodes_witness:
  "queryFn_exit (example_query (Some shift_schema) None (Completes 2 (Success 3)))
     query_runtime False quiet_ctx = Resolved (Success 3)
   \<and> schema (example_query (Some shift_schema) None (Completes 2 (Success 3))) = Some shift_schema
   \<and> encode shift_schema 3 = Inr 4 \<and> decode shift_schema 4 = Inr 3
   \<and> queryFn' (toQueryOptions (example_query (Some shift_schema) None (Completes 2 (Success 3)))
        query_runtime False) quiet_ctx = Resolved 4
   \<and> select (toQueryOptions (example_query (Some shift_schema) None (Completes 2 (Success 3)))
        query_runtime False) 4 = Inr 3
   \<and> queryFn_exit (example_query None None (Completes 2 (Success 3)))
        query_runtime False quiet_ctx = Resolved (Success 3)
   \<and> schema (example_query None None (Completes 2 (Success 3))) = None
   \<and> queryFn' (toQueryOptions (example_query None None (Completes 2 (Success 3)))
        query_runtime False) quiet_ctx = Resolved 3
   \<and> select (toQueryOptions (example_query None None (Completes 2 (Success 3)))
        query_runtime False) 3 = Inr 3"
proof -
  have run: "queryFn_exit (example_query (Some shift_schema) None (Completes 2 (Success 3)))
     query_runtime False quiet_ctx = Resolved (Success 3)"
    by (simp add: bridge_exit run_bridge_def)
  have run': "queryFn_exit (example_query None None (Completes 2 (Success 3)))
     query_runtime False quiet_ctx = Resolved (Success 3)"
    by (simp add: bridge_exit run_bridge_def)
  have enc: "encode shift_schema 3 = Inr 4" and dec: "decode shift_schema 4 = Inr 3"
    by (simp_all add: shift_schema_def)
  from queryFn_success_encodes [OF run, of shift_schema 4]
    queryFn_success_encodes [OF run', of shift_schema 4] enc dec run run'
  show ?thesis by (simp add: example_query_schema)
qed

text \<open>
  Claim C1 as stated fails twice. A run that succeeds with \<open>-1\<close> under a schema that refuses
  negative numbers makes the fetch function reject with the parse error; and under a schema
  whose encoding loses the low bit, the run succeeds with \<open>3\<close>, the cache holds \<open>1\<close> and the
  consumer reads \<open>2\<close>.
\<close>

theorem queryFn_success_resolves_counterexample:
  "queryFn_exit (example_query (Some nonneg_schema) None (Completes 2 (Success (- 1))))
     query_runtime False quiet_ctx = Resolved (Success (- 1))
   \<and> queryFn' (toQueryOptions
        (example_query (Some nonneg_schema) None (Completes 2 (Success (- 1)))) query_runtime False) quiet_ctx
     = Rejected (ParseErrorV ''negative'')
   \<and> queryFn_exit (example_query (Some halving_schema) None (Completes 2 (Success 3)))
     query_runtime False quiet_ctx = Resolved (Success 3)
   \<and> queryFn' (toQueryOptions
        (example_query (Some halving_schema) None (Completes 2 (Success 3))) query_runtime False) quiet_ctx
     = Resolved 1
   \<and> select (toQueryOptions
        (example_query (Some halving_schema) None (Completes 2 (Success 3))) query_runtime False) 1
     = Inr 2"
  by (simp add: queryFn'_unfold select_unfold bridge_exit run_bridge_def example_query_schema
        encodeSync_def decodeSync_def nonneg_schema_def halving_schema_def)

text \<open>
  Claim C2. When the run of the descriptor's effect fails with a cause whose expected-error
  payload is \<open>e\<close> (in particular with the declared error \<open>e\<close> itself), the fetch function
  rejects, and the value it rejects with is that same cause, from which \<open>e\<close> is read back.
\<close>

theorem queryFn_failure_rethrows_cause:
  assumes "queryFn_exit options runtime suspense ctx = Resolved (Failure c)"
    and "failureOption c = Some e"
  shows "\<exists>thrown. queryFn' (toQueryOptions options runtime suspense) ctx = Rejected (CauseV thrown)
           \<and> thrown = c \<and> failureOption thrown = Some e"
  using assms by (simp add: queryFn'_unfold)

theorem queryFn_failure_rethrows_cause_witness:
  "queryFn_exit (example_query None None (Completes 2 (Failure (Fail ''NotFound''))))
     query_runtime False quiet_ctx = Resolved (Failure (Fail ''NotFound''))
   \<and> failureOption (Fail ''NotFound'') = Some ''NotFound''
   \<and> queryFn' (toQueryOptions
        (example_query None None (Completes 2 (Failure (Fail ''NotFound'')))) query_runtime False) quiet_ctx
     = Rejected (CauseV (Fail ''NotFound''))"
proof -
  have run: "queryFn_exit (example_query None None (Completes 2 (Failure (Fail ''NotFound''))))
     query_runtime False quiet_ctx = Resolved (Failure (Fail ''NotFound''))"
    by (simp add: bridge_exit run_bridge_def)
  have payload: "failureOption (Fail ''NotFound'') = Some ''NotFound''"
    by simp
  from queryFn_failure_rethrows_cause [OF run payload] run show ?thesis
    by simp
qed

text \<open>
  Claim C4. With a schema that round-trips at \<open>x\<close> (encoding \<open>x\<close> gives \<open>w\<close> and decoding \<open>w\<close>
  gives \<open>x\<close> back), a run that produces \<open>x\<close> is cached as \<open>w\<close> and read as \<open>x\<close>. Without a
  schema the fetch function resolves with the produced value and \<open>select\<close> returns any
  cached value as it is.
\<close>

theorem schema_round_trip:
  assumes "queryFn_exit options runtime suspense ctx = Resolved (Success x)"
  shows "(schema options = Some sch \<longrightarrow> encode sch x = Inr w \<longrightarrow> decode sch w = Inr x \<longrightarrow>
            (\<exists>cached. queryFn' (toQueryOptions options runtime suspense) ctx = Resolved cached
               \<and> cached = w
               \<and> select (toQueryOptions options runtime suspense) cached = Inr x))
       \<and> (schema options = None \<longrightarrow>
            queryFn' (toQueryOptions options runtime suspense) ctx = Resolved x
          \<and> (\<forall>y. select (toQueryOptions options runtime suspense) y = Inr y))"
  using assms by (simp add: queryFn'_unfold select_unfold encodeSync_def decodeSync_def)

theorem schema_round_trip_witness:
  "queryFn_exit (example_query (Some shift_schema) (Some False) (Completes 5 (Success 10)))
     query_runtime True quiet_ctx = Resolved (Success 10)
   \<and> schema (example_query (Some shift_schema) (Some False) (Completes 5 (Success 10)))
       = Some shift_schema
   \<and> encode shift_schema 10 = Inr 11 \<and> decode shift_schema 11 = Inr 10
   \<and> queryFn' (toQueryOptions
        (example_query (Some shift_schema) (Some False) (Completes 5 (Success 10))) query_runtime True)
        quiet_ctx = Resolved 11
   \<and> select (toQueryOptions
        (example_query (Some shift_schema) (Some False) (Completes 5 (Success 10))) query_runtime True) 11
       = Inr 10
   \<and> queryFn_exit (example_query None (Some False) (Completes 5 (Success 10)))
        query_runtime True quiet_ctx = Resolved (Success 10)
   \<and> schema (example_query None (Some False) (Completes 5 (Success 10))) = None
   \<and> queryFn' (toQueryOptions
        (example_query None (Some False) (Completes 5 (Success 10))) query_runtime True) quiet_ctx
       = Resolved 10
   \<and> select (toQueryOptions
        (example_query None (Some False) (Completes 5 (Success 10))) query_runtime True) 10 = Inr 10"
proof -
  have run: "queryFn_exit (example_query (Some shift_schema) (Some False) (Completes 5 (Success 10)))
     query_runtime True quiet_ctx = Resolved (Success 10)"
    by (simp add: bridge_exit run_bridge_def)
  have run': "queryFn_exit (example_query None (Some False) (Completes 5 (Success 10)))
     query_runtime True quiet_ctx = Resolved (Success 10)"
    by (simp add: bridge_exit run_bridge_def)
  have enc: "encode shift_schema 10 = Inr 11" and dec: "decode shift_schema 11 = Inr 10"
    by (simp_all add: shift_schema_def)
  from schema_round_trip [OF run, of shift_schema 11]
    schema_round_trip [OF run', of shift_schema 11] enc dec run run'
  show ?thesis by (simp add: example_query_schema)
qed

text \<open>
  Claim C10. With a schema, when the run succeeds with \<open>v\<close> and encoding \<open>v\<close> fails, the fetch
  function rejects with the parse error that the encoder threw, and that value is not a
  cause.
\<close>

theorem queryFn_encode_failure_rejects:
  assumes "schema options = Some sch"
    and "queryFn_exit options runtime suspense ctx = Resolved (Success v)"
    and "encode sch v = Inl m"
  shows "\<exists>thrown. queryFn' (toQueryOptions options runtime suspense) ctx = Rejected thrown
           \<and> thrown = ParseErrorV m \<and> \<not> isCause thrown"
  using assms by (simp add: queryFn'_unfold encodeSync_def)

theorem queryFn_encode_failure_rejects_witness:
  "schema (example_query (Some nonneg_schema) None (Completes 1 (Success (- 4))))
     = Some nonneg_schema
   \<and> queryFn_exit (example_query (Some nonneg_schema) None (Completes 1 (Success (- 4))))
       query_runtime False quiet_ctx = Resolved (Success (- 4))
   \<and> encode nonneg_schema (- 4) = Inl ''negative''
   \<and> queryFn' (toQueryOptions
        (example_query (Some nonneg_schema) None (Completes 1 (Success (- 4)))) query_runtime False)
        quiet_ctx = Rejected (ParseErrorV ''negative'')
   \<and> \<not> isCause (ParseErrorV ''negative'' :: string js_value)"
proof -
  have sch: "schema (example_query (Some nonneg_schema) None (Completes 1 (Success (- 4))))
     = Some nonneg_schema"
    by (simp add: example_query_schema)
  have run: "queryFn_exit (example_query (Some nonneg_schema) None (Completes 1 (Success (- 4))))
       query_runtime False quiet_ctx = Resolved (Success (- 4))"
    by (simp add: bridge_exit run_bridge_def)
  have enc: "encode nonneg_schema (- 4) = Inl ''negative''"
    by (simp add: nonneg_schema_def)
  from queryFn_encode_failure_rejects [OF sch run enc] sch run enc show ?thesis
    by simp
qed

section \<open>The mutation translator\<close>

lemma mutationFn'_unfold:
  "mutationFn' (toMutationOptions options runtime) vars =
     then_promise (mutationFn_exit options runtime vars)
       (\<lambda>exit. case exit of Success data \<Rightarrow> Inr data | Failure cause \<Rightarrow> Inl (CauseV cause))"
  by (simp add: toMutationOptions_def)

lemma bridge_mutation_exit:
  "mutationFn_exit (example_mutation f) bridge_runtime vars = run_bridge (f vars) None"
  by (simp add: mutationFn_exit_def example_mutation_def bridge_runtime_def withSpan_def)

text \<open>
  Claim C7. The produced mutate function runs the effect made from the variables inside the
  span \<open>useMutation\<close> that carries the mutation key, without a signal. A success resolves
  with the value unchanged, a failure rejects with the cause itself, and on the same exit
  promise it settles exactly as the fetch function of a query descriptor without a schema
  does.
\<close>

theorem toMutationOptions_unwraps:
  "mutationFn_exit options runtime vars =
     runPromiseExit runtime
       (WithSpan ''useMutation'' [(''mutationKey'', mutationKey options)] (mutationFn options vars))
       None
   \<and> (mutationFn_exit options runtime vars = Resolved (Success v) \<longrightarrow>
        mutationFn' (toMutationOptions options runtime) vars = Resolved v)
   \<and> (mutationFn_exit options runtime vars = Resolved (Failure c) \<longrightarrow>
        mutationFn' (toMutationOptions options runtime) vars = Rejected (CauseV c))
   \<and> (schema qoptions = None \<longrightarrow>
        queryFn_exit qoptions qruntime suspense ctx = mutationFn_exit options runtime vars \<longrightarrow>
        queryFn' (toQueryOptions qoptions qruntime suspense) ctx
          = mutationFn' (toMutationOptions options runtime) vars)"
proof (intro conjI impI)
  show "mutationFn_exit options runtime vars =
     runPromiseExit runtime
       (WithSpan ''useMutation'' [(''mutationKey'', mutationKey options)] (mutationFn options vars))
       None"
    by (simp add: mutationFn_exit_def withSpan_def)
next
  assume "mutationFn_exit options runtime vars = Resolved (Success v)"
  then show "mutationFn' (toMutationOptions options runtime) vars = Resolved v"
    by (simp add: mutationFn'_unfold)
next
  assume "mutationFn_exit options runtime vars = Resolved (Failure c)"
  then show "mutationFn' (toMutationOptions options runtime) vars = Rejected (CauseV c)"
    by (simp add: mutationFn'_unfold)
next
  assume none: "schema qoptions = None"
    and same: "queryFn_exit qoptions qruntime suspense ctx = mutationFn_exit options runtime vars"
  from none same show "queryFn' (toQueryOptions qoptions qruntime suspense) ctx
          = mutationFn' (toMutationOptions options runtime) vars"
    by (cases "mutationFn_exit options runtime vars")
       (simp_all add: mutationFn'_unfold queryFn'_unfold split: exit.splits)
qed

theorem toMutationOptions_unwraps_witness:
  "mutationFn_exit (example_mutation (\<lambda>n. Completes 1 (Success (n + 1)))) mutation_runtime 4
     = Resolved (Success 5)
   \<and> mutationFn' (toMutationOptions (example_mutation (\<lambda>n. Completes 1 (Success (n + 1)))) mutation_runtime) 4
     = Resolved 5
   \<and> mutationFn_exit (example_mutation (\<lambda>n. Completes 1 (Failure (Fail ''Conflict'')))) mutation_runtime 4
     = Resolved (Failure (Fail ''Conflict''))
   \<and> mutationFn' (toMutationOptions
        (example_mutation (\<lambda>n. Completes 1 (Failure (Fail ''Conflict'')))) mutation_runtime) 4
     = Rejected (CauseV (Fail ''Conflict''))
   \<and> schema (example_query None None (Completes 1 (Success 5))) = None
   \<and> queryFn_exit (example_query None None (Completes 1 (Success 5))) query_runtime False quiet_ctx
     = mutationFn_exit (example_mutation (\<lambda>n. Completes 1 (Success (n + 1)))) mutation_runtime 4
   \<and> queryFn' (toQueryOptions (example_query None None (Completes 1 (Success 5))) query_runtime False)
        quiet_ctx
     = mutationFn' (toMutationOptions (example_mutation (\<lambda>n. Completes 1 (Success (n + 1)))) mutation_runtime) 4"
proof -
  have ok: "mutationFn_exit (example_mutation (\<lambda>n. Completes 1 (Success (n + 1)))) mutation_runtime 4
     = Resolved (Success 5)"
    by (simp add: bridge_mutation_exit run_bridge_def)
  have ko: "mutationFn_exit (example_mutation (\<lambda>n. Completes 1 (Failure (Fail ''Conflict'')))) mutation_runtime 4
     = Resolved (Failure (Fail ''Conflict''))"
    by (simp add: bridge_mutation_exit run_bridge_def)
  have q: "queryFn_exit (example_query None None (Completes 1 (Success 5))) query_runtime False quiet_ctx
     = mutationFn_exit (example_mutation (\<lambda>n. Completes 1 (Success (n + 1)))) mutation_runtime 4"
    by (simp add: bridge_exit bridge_mutation_exit run_bridge_def)
  have none: "schema (example_query None None (Completes 1 (Success 5))) = None"
    by (simp add: example_query_schema)
  from toMutationOptions_unwraps
         [of "example_mutation (\<lambda>n. Completes 1 (Success (n + 1)))" mutation_runtime 4 5 "Fail ''x''"
             "example_query None None (Completes 1 (Success 5))" query_runtime False quiet_ctx]
       toMutationOptions_unwraps
         [of "example_mutation (\<lambda>n. Completes 1 (Failure (Fail ''Conflict'')))" mutation_runtime 4 0
             "Fail ''Conflict''" "example_query None None (Completes 1 (Success 5))" query_runtime False
             quiet_ctx]
       ok ko q none
  show ?thesis by simp
qed

section \<open>Cancellation\<close>

text \<open>
  Claim C6. With \<open>consumeAbortSignal\<close> set, the runtime is called with the signal of the
  fetch context; unset or false, it is called without a signal. On the bridge of the effect
  library, a forwarded signal that fires while the effect still runs makes the exit promise
  resolve with a failure whose cause is interrupted (the produced fetch function then
  rejects with that cause); when the signal is not forwarded the run is what the effect
  does by itself, whatever the signal does.
\<close>

theorem abort_signal_forwarding:
  "(consumeAbortSignal options = Some True \<longrightarrow>
      queryFn_exit options runtime suspense ctx =
        runPromiseExit runtime
          (WithSpan (if suspense then ''useSuspenseQuery'' else ''useQuery'')
             [(''queryKey'', queryKey options)] (queryFn options ()))
          (Some (signal ctx)))
   \<and> (consumeAbortSignal options \<noteq> Some True \<longrightarrow>
      queryFn_exit options runtime suspense ctx =
        runPromiseExit runtime
          (WithSpan (if suspense then ''useSuspenseQuery'' else ''useQuery'')
             [(''queryKey'', queryKey options)] (queryFn options ()))
          None)
   \<and> (consumeAbortSignal boptions = Some True \<longrightarrow>
      fires_mid_run (signal ctx) (queryFn boptions ()) \<longrightarrow>
      (\<exists>c. queryFn_exit boptions bridge_runtime suspense ctx = Resolved (Failure c)
          \<and> isInterrupted c
          \<and> queryFn' (toQueryOptions boptions bridge_runtime suspense) ctx = Rejected (CauseV c)))
   \<and> (consumeAbortSignal boptions \<noteq> Some True \<longrightarrow>
      queryFn_exit boptions bridge_runtime suspense ctx = uninterrupted (queryFn boptions ()))"
  by (simp add: queryFn_exit_forward queryFn'_unfold bridge_runtime_def run_bridge_def)

theorem abort_signal_forwarding_witness:
  "consumeAbortSignal (example_query None (Some True) (Completes 3 (Success 9))) = Some True
   \<and> fires_mid_run (signal aborting_ctx)
       (queryFn (example_query None (Some True) (Completes 3 (Success 9))) ())
   \<and> queryFn_exit (example_query None (Some True) (Completes 3 (Success 9))) query_runtime False
       aborting_ctx = Resolved (Failure Interrupt)
   \<and> queryFn' (toQueryOptions (example_query None (Some True) (Completes 3 (Success 9))) query_runtime
       False) aborting_ctx = Rejected (CauseV Interrupt)
   \<and> consumeAbortSignal (example_query None (Some False) (Completes 3 (Success 9))) \<noteq> Some True
   \<and> queryFn_exit (example_query None (Some False) (Completes 3 (Success 9))) query_runtime False
       aborting_ctx = Resolved (Success 9)"
proof -
  have on: "consumeAbortSignal (example_query None (Some True) (Completes 3 (Success 9)))
     = Some True"
    by (simp add: example_query_consume)
  have off: "consumeAbortSignal (example_query None (Some False) (Completes 3 (Success 9)))
     \<noteq> Some True"
    by (simp add: example_query_consume)
  have fires: "fires_mid_run (signal aborting_ctx)
       (queryFn (example_query None (Some True) (Completes 3 (Success 9))) ())"
    by (simp add: example_query_effect aborting_ctx_def)
  have run: "queryFn_exit (example_query None (Some True) (Completes 3 (Success 9))) query_runtime False
       aborting_ctx = Resolved (Failure Interrupt)"
    by (simp add: bridge_exit run_bridge_def aborting_ctx_def)
  have a: "\<exists>c. queryFn_exit (example_query None (Some True) (Completes 3 (Success 9))) query_runtime False
              aborting_ctx = Resolved (Failure c)
          \<and> isInterrupted c
          \<and> queryFn' (toQueryOptions (example_query None (Some True) (Completes 3 (Success 9)))
                query_runtime False) aborting_ctx = Rejected (CauseV c)"
    by (rule abort_signal_forwarding
          [of "example_query None (Some True) (Completes 3 (Success 9))" query_runtime False aborting_ctx
              "example_query None (Some True) (Completes 3 (Success 9))",
           THEN conjunct2, THEN conjunct2, THEN conjunct1, rule_format, OF on fires])
  have b: "queryFn_exit (example_query None (Some False) (Completes 3 (Success 9))) query_runtime False
             aborting_ctx
           = uninterrupted (queryFn (example_query None (Some False) (Completes 3 (Success 9))) ())"
    by (rule abort_signal_forwarding
          [of "example_query None (Some False) (Completes 3 (Success 9))" query_runtime False aborting_ctx
              "example_query None (Some False) (Completes 3 (Success 9))",
           THEN conjunct2, THEN conjunct2, THEN conjunct2, rule_format, OF off])
  from a obtain c where
    c1: "queryFn_exit (example_query None (Some True) (Completes 3 (Success 9))) query_runtime False
           aborting_ctx = Resolved (Failure c)"
    and c3: "queryFn' (toQueryOptions (example_query None (Some True) (Completes 3 (Success 9)))
           query_runtime False) aborting_ctx = Rejected (CauseV c)"
    by blast
  from c1 run have "c = Interrupt" by simp
  with c3 have rej: "queryFn' (toQueryOptions
       (example_query None (Some True) (Completes 3 (Success 9))) query_runtime False) aborting_ctx
     = Rejected (CauseV Interrupt)"
    by simp
  from b have plain: "queryFn_exit (example_query None (Some False) (Completes 3 (Success 9)))
       query_runtime False aborting_ctx = Resolved (Success 9)"
    by (simp add: example_query_effect)
  from on fires run rej off plain show ?thesis by blast
qed

section \<open>The hooks\<close>

text \<open>
  Claim C8. Without a provider the lookup of the ambient runtime raises the configuration
  error, and so does each of the three hooks, before the cache primitive is reached. With a
  provider the lookup returns the provider's runtime, and each hook hands to its primitive
  the options translated with that runtime.
\<close>

theorem useRuntime_fails_fast:
  "useRuntime None = Inl (ErrorV ''useRuntime must be used within a RuntimeProvider'')
   \<and> useRuntime (Some runtime) = Inr runtime
   \<and> useQuery qprim None qoptions
       = Inl (ErrorV ''useRuntime must be used within a RuntimeProvider'')
   \<and> useSuspenseQuery sprim None soptions
       = Inl (ErrorV ''useRuntime must be used within a RuntimeProvider'')
   \<and> useMutation mprim None moptions
       = Inl (ErrorV ''useRuntime must be used within a RuntimeProvider'')
   \<and> useQuery qprim (Some qruntime) qoptions
       = Inr (qprim (toQueryOptions qoptions qruntime False))
   \<and> useSuspenseQuery sprim (Some sruntime) soptions
       = (case sprim (toQueryOptions soptions sruntime True) of
            Inr query \<Rightarrow> Inr (Right query)
          | Inl e \<Rightarrow> if instanceof_Promise e then Inl e else Inr (Left (asCause e)))
   \<and> useMutation mprim (Some mruntime) moptions
       = Inr (mprim (toMutationOptions moptions mruntime))"
  by (simp add: useRuntime_def useQuery_def useSuspenseQuery_def useMutation_def)

lemma asCause_cases: "asCause e = (if isCause e then (case e of CauseV c \<Rightarrow> c) else Die e)"
  by (cases e) simp_all

text \<open>
  Claim C3. Inside a provider, whatever the suspense-read primitive does: a returned result
  comes back as \<open>Right\<close>; a thrown pending promise is thrown again, the same one; a thrown
  cause comes back as \<open>Left\<close> of that cause, and any other thrown value as \<open>Left\<close> of the
  defect wrapping it; so the hook throws nothing but a pending promise that the primitive
  threw. The configuration error, raised before the guarded call, propagates as it is.
\<close>

theorem useSuspenseQuery_outcomes:
  "(prim (toQueryOptions options runtime True) = Inr query \<longrightarrow>
      useSuspenseQuery prim (Some runtime) options = Inr (Right query))
   \<and> (prim (toQueryOptions options runtime True) = Inl (PromiseV p) \<longrightarrow>
      useSuspenseQuery prim (Some runtime) options = Inl (PromiseV p))
   \<and> (prim (toQueryOptions options runtime True) = Inl (CauseV c) \<longrightarrow>
      useSuspenseQuery prim (Some runtime) options = Inr (Left c))
   \<and> (prim (toQueryOptions options runtime True) = Inl e \<longrightarrow>
      \<not> instanceof_Promise e \<longrightarrow> \<not> isCause e \<longrightarrow>
      useSuspenseQuery prim (Some runtime) options = Inr (Left (Die e)))
   \<and> (useSuspenseQuery prim (Some runtime) options = Inl t \<longrightarrow>
      instanceof_Promise t \<and> prim (toQueryOptions options runtime True) = Inl t)
   \<and> useSuspenseQuery prim None options
       = Inl (ErrorV ''useRuntime must be used within a RuntimeProvider'')"
  by (auto simp: useSuspenseQuery_def useRuntime_def asCause_cases split: sum.splits if_splits)

theorem useSuspenseQuery_outcomes_witness:
  "read_settled (toQueryOptions (example_query None None (Completes 2 (Success 3))) query_runtime True)
     = Inr 3
   \<and> useSuspenseQuery read_settled (Some query_runtime) (example_query None None (Completes 2 (Success 3)))
     = Inr (Right 3)
   \<and> read_settled (toQueryOptions (example_query None None Never) query_runtime True) = Inl (PromiseV 0)
   \<and> useSuspenseQuery read_settled (Some query_runtime) (example_query None None Never)
     = Inl (PromiseV 0)
   \<and> instanceof_Promise (PromiseV 0 :: string js_value)
   \<and> read_settled (toQueryOptions
        (example_query None None (Completes 2 (Failure (Fail ''NotFound'')))) query_runtime True)
     = Inl (CauseV (Fail ''NotFound''))
   \<and> useSuspenseQuery read_settled (Some query_runtime)
        (example_query None None (Completes 2 (Failure (Fail ''NotFound''))))
     = Inr (Left (Fail ''NotFound''))
   \<and> read_settled (toQueryOptions
        (example_query (Some nonneg_schema) None (Completes 2 (Success (- 1)))) query_runtime True)
     = Inl (ParseErrorV ''negative'')
   \<and> \<not> instanceof_Promise (ParseErrorV ''negative'' :: string js_value)
   \<and> \<not> isCause (ParseErrorV ''negative'' :: string js_value)
   \<and> useSuspenseQuery read_settled (Some query_runtime)
        (example_query (Some nonneg_schema) None (Completes 2 (Success (- 1))))
     = Inr (Left (Die (ParseErrorV ''negative'')))"
proof -
  have ok: "read_settled (toQueryOptions (example_query None None (Completes 2 (Success 3)))
      query_runtime True) = Inr 3"
    by (simp add: read_settled_def queryFn'_unfold select_unfold bridge_exit run_bridge_def
          example_query_schema)
  have pending: "read_settled (toQueryOptions (example_query None None Never) query_runtime True)
      = Inl (PromiseV 0)"
    by (simp add: read_settled_def queryFn'_unfold select_unfold bridge_exit run_bridge_def
          example_query_schema)
  have failed: "read_settled (toQueryOptions
        (example_query None None (Completes 2 (Failure (Fail ''NotFound'')))) query_runtime True)
     = Inl (CauseV (Fail ''NotFound''))"
    by (simp add: read_settled_def queryFn'_unfold select_unfold bridge_exit run_bridge_def
          example_query_schema)
  have parse: "read_settled (toQueryOptions
        (example_query (Some nonneg_schema) None (Completes 2 (Success (- 1)))) query_runtime True)
     = Inl (ParseErrorV ''negative'')"
    by (simp add: read_settled_def queryFn'_unfold select_unfold bridge_exit run_bridge_def
          example_query_schema encodeSync_def nonneg_schema_def)
  have np: "\<not> instanceof_Promise (ParseErrorV ''negative'' :: string js_value)"
    and nc: "\<not> isCause (ParseErrorV ''negative'' :: string js_value)"
    and ip: "instanceof_Promise (PromiseV 0 :: string js_value)"
    by simp_all
  note right = useSuspenseQuery_outcomes
      [of read_settled "example_query None None (Completes 2 (Success 3))" query_runtime 3,
       THEN conjunct1, rule_format, OF ok]
  note again = useSuspenseQuery_outcomes
      [of read_settled "example_query None None Never" query_runtime _ 0,
       THEN conjunct2, THEN conjunct1, rule_format, OF pending]
  note left = useSuspenseQuery_outcomes
      [of read_settled "example_query None None (Completes 2 (Failure (Fail ''NotFound'')))"
          query_runtime _ _ "Fail ''NotFound''",
       THEN conjunct2, THEN conjunct2, THEN conjunct1, rule_format, OF failed]
  note die = useSuspenseQuery_outcomes
      [of read_settled "example_query (Some nonneg_schema) None (Completes 2 (Success (- 1)))"
          query_runtime _ _ _ "ParseErrorV ''negative''",
       THEN conjunct2, THEN conjunct2, THEN conjunct2, THEN conjunct1, rule_format,
       OF parse np nc]
  note thrown = useSuspenseQuery_outcomes
      [of read_settled "example_query None None Never" query_runtime _ _ _ _ "PromiseV 0",
       THEN conjunct2, THEN conjunct2, THEN conjunct2, THEN conjunct2, THEN conjunct1,
       rule_format, OF again]
  from ok right pending again ip failed left parse np nc die thrown show ?thesis
    by blast
qed

section \<open>The provider's lifecycle\<close>

lemma render_twice: "render mk (render mk s) = render mk s"
  by (cases s) (simp add: render_def split: option.splits prod.splits)

lemma render_disposed: "disposed (snd (render mk s)) = disposed (snd s)"
  by (cases s) (simp add: render_def split: option.splits prod.splits)

lemma render_keeps_refs:
  "mountedRef (fst (render mk s)) = mountedRef (fst s)"
  "cleanup (fst (render mk s)) = cleanup (fst s)"
  by (cases s; simp add: render_def split: option.splits prod.splits)+

text \<open>
  No cleanup is registered while the effect has run at most once, whatever else happens:
  a lifecycle in which the effect callback runs once never disposes the runtime.
\<close>

lemma one_commit_never_disposes:
  assumes "cleanup (fst s) = None"
    and "if mountedRef (fst s) then Commit \<notin> set evs else count_list evs Commit \<le> 1"
  shows "disposed (snd (run_lifecycle mk evs s)) = disposed (snd s)"
  using assms
proof (induction evs arbitrary: s)
  case Nil
  then show ?case by simp
next
  case (Cons ev evs)
  obtain p w where s: "s = (p, w)" by (cases s)
  show ?case
  proof (cases ev)
    case Render
    have "disposed (snd (run_lifecycle mk evs (render mk s))) = disposed (snd (render mk s))"
      using Cons.prems Render
      by (intro Cons.IH) (simp_all add: render_keeps_refs split: if_splits)
    then show ?thesis
      by (simp add: Render render_disposed)
  next
    case Commit
    have "disposed (snd (run_lifecycle mk evs (run_effect s))) = disposed (snd (run_effect s))"
      using Cons.prems Commit
      by (intro Cons.IH)
         (auto simp: s run_effect_def count_list_0_iff split: option.splits if_splits)
    moreover have "disposed (snd (run_effect s)) = disposed (snd s)"
      by (simp add: s run_effect_def split: option.splits)
    ultimately show ?thesis
      by (simp add: Commit)
  next
    case Unmount
    have same: "run_cleanup s = s"
      using Cons.prems(1) by (simp add: s run_cleanup_def)
    have "disposed (snd (run_lifecycle mk evs s)) = disposed (snd s)"
      using Cons.prems Unmount
      by (intro Cons.IH) (simp_all split: if_splits)
    then show ?thesis
      by (simp add: Unmount same)
  qed
qed

text \<open>
  In the development-only strict mode the effect runs a second time after a simulated
  unmount; that second run registers the cleanup, and the unmount disposes the runtime.
\<close>

lemma strict_mode_disposes:
  "disposed (snd (run_lifecycle mk [Render, Commit, Unmount, Commit, Unmount]
      (initial_provider, w))) = disposed w @ [fst (mk (memoMap w))]"
  by (simp add: render_def run_effect_def run_cleanup_def initial_provider_def
        split: prod.splits)

text \<open>
  Claim C5, at the lifecycle of a provider that mounts, commits and unmounts once: the
  runtime is built by the first render, the effect runs after the commit, and the unmount
  disposes nothing, because the first run of the effect returns before it registers the
  cleanup.
\<close>

theorem provider_unmount_after_commit_keeps_runtime:
  "runtime_cell (fst (run_lifecycle mk [Render, Commit, Unmount] (initial_provider, w)))
     = Some (fst (mk (memoMap w)))
   \<and> mountedRef (fst (run_lifecycle mk [Render, Commit, Unmount] (initial_provider, w)))
   \<and> cleanup (fst (run_lifecycle mk [Render, Commit] (initial_provider, w))) = None
   \<and> disposed (snd (run_lifecycle mk [Render, Commit, Unmount] (initial_provider, w)))
     = disposed w"
  by (simp add: render_def run_effect_def run_cleanup_def initial_provider_def
        split: prod.splits)

section \<open>The memo table\<close>

lemma ManagedRuntime_make_again:
  "ManagedRuntime_make layer (snd (ManagedRuntime_make layer memo))
     = ManagedRuntime_make layer memo"
  by (cases "map_of memo layer") (simp_all add: ManagedRuntime_make_def map_add_def)

lemma render_initial:
  "render mk (initial_provider, w)
     = (initial_provider\<lparr> runtime_cell := Some (fst (mk (memoMap w))) \<rparr>,
        w\<lparr> memoMap := snd (mk (memoMap w)) \<rparr>)"
  by (simp add: render_def initial_provider_def split: prod.splits)

text \<open>
  Claim C9. Two provider scopes of one process, rendered for the first time one after the
  other with the same layer, read and update the one memo table of the process: their
  runtimes hold the same capability instance, the second build constructs nothing, a later
  render of either scope builds nothing again, and from the table as the module makes it
  the capability is constructed once.
\<close>

theorem memo_map_shares_capability:
  assumes "render (ManagedRuntime_make layer) (initial_provider, w0) = (p1, w1)"
    and "render (ManagedRuntime_make layer) (initial_provider, w1) = (p2, w2)"
  shows "\<exists>r1 r2. runtime_cell p1 = Some r1 \<and> runtime_cell p2 = Some r2
           \<and> rt_layer r1 = layer \<and> rt_layer r2 = layer
           \<and> capability r1 = capability r2
           \<and> memoMap w2 = memoMap w1
           \<and> render (ManagedRuntime_make layer) (p1, w2) = (p1, w2)
           \<and> (memoMap w0 = makeMemoMap \<longrightarrow> memoMap w2 = [(layer, capability r1)])"
proof -
  from assms(1) have p1: "runtime_cell p1 = Some (fst (ManagedRuntime_make layer (memoMap w0)))"
    and w1: "memoMap w1 = snd (ManagedRuntime_make layer (memoMap w0))"
    by (auto simp: render_initial)
  from assms(2) have p2: "runtime_cell p2 = Some (fst (ManagedRuntime_make layer (memoMap w1)))"
    and w2: "memoMap w2 = snd (ManagedRuntime_make layer (memoMap w1))"
    by (auto simp: render_initial)
  have again: "ManagedRuntime_make layer (memoMap w1) = ManagedRuntime_make layer (memoMap w0)"
    by (simp add: w1 ManagedRuntime_make_again)
  have layer: "rt_layer (fst (ManagedRuntime_make layer (memoMap w0))) = layer"
    by (simp add: ManagedRuntime_make_def split: option.splits)
  have stable: "render (ManagedRuntime_make layer) (p1, w2) = (p1, w2)"
    by (simp add: render_def p1)
  from w2 again have w2': "memoMap w2 = snd (ManagedRuntime_make layer (memoMap w0))"
    by simp
  have fresh: "memoMap w0 = makeMemoMap \<longrightarrow>
      memoMap w2 = [(layer, capability (fst (ManagedRuntime_make layer (memoMap w0))))]"
    by (simp add: w2' makeMemoMap_def ManagedRuntime_make_def)
  from p2 again
  have p2': "runtime_cell p2 = Some (fst (ManagedRuntime_make layer (memoMap w0)))"
    by simp
  from w1 w2' have same: "memoMap w2 = memoMap w1"
    by simp
  let ?r = "fst (ManagedRuntime_make layer (memoMap w0))"
  from p1 p2' layer same stable fresh
  have "runtime_cell p1 = Some ?r \<and> runtime_cell p2 = Some ?r
          \<and> rt_layer ?r = layer \<and> rt_layer ?r = layer
          \<and> capability ?r = capability ?r
          \<and> memoMap w2 = memoMap w1
          \<and> render (ManagedRuntime_make layer) (p1, w2) = (p1, w2)
          \<and> (memoMap w0 = makeMemoMap \<longrightarrow> memoMap w2 = [(layer, capability ?r)])"
    by blast
  then show ?thesis
    by blast
qed

theorem memo_map_shares_capability_witness:
  "render (ManagedRuntime_make ''ApiClient'') (initial_provider, module_loaded)
     = (initial_provider\<lparr> runtime_cell := Some \<lparr> rt_layer = ''ApiClient'', capability = 0 \<rparr> \<rparr>,
        module_loaded\<lparr> memoMap := [(''ApiClient'', 0)] \<rparr>)
   \<and> render (ManagedRuntime_make ''ApiClient'')
        (initial_provider, module_loaded\<lparr> memoMap := [(''ApiClient'', 0)] \<rparr>)
     = (initial_provider\<lparr> runtime_cell := Some \<lparr> rt_layer = ''ApiClient'', capability = 0 \<rparr> \<rparr>,
        module_loaded\<lparr> memoMap := [(''ApiClient'', 0)] \<rparr>)
   \<and> memoMap (module_loaded :: (string built_runtime, string MemoMap) process) = makeMemoMap
   \<and> (\<exists>r1 r2.
        runtime_cell (initial_provider\<lparr> runtime_cell :=
            Some \<lparr> rt_layer = ''ApiClient'', capability = 0 \<rparr> \<rparr>) = Some r1
      \<and> runtime_cell (initial_provider\<lparr> runtime_cell :=
            Some \<lparr> rt_layer = ''ApiClient'', capability = 0 \<rparr> \<rparr>) = Some r2
      \<and> capability r1 = capability r2
      \<and> memoMap (module_loaded\<lparr> memoMap := [(''ApiClient'', 0)] \<rparr>
           :: (string built_runtime, string MemoMap) process)
         = [(''ApiClient'', capability r1)])"
proof -
  have first: "render (ManagedRuntime_make ''ApiClient'') (initial_provider, module_loaded)
     = (initial_provider\<lparr> runtime_cell := Some \<lparr> rt_layer = ''ApiClient'', capability = 0 \<rparr> \<rparr>,
        module_loaded\<lparr> memoMap := [(''ApiClient'', 0)] \<rparr>)"
    by (simp add: render_initial module_loaded_def makeMemoMap_def ManagedRuntime_make_def)
  have second: "render (ManagedRuntime_make ''ApiClient'')
        (initial_provider, module_loaded\<lparr> memoMap := [(''ApiClient'', 0)] \<rparr>)
     = (initial_provider\<lparr> runtime_cell := Some \<lparr> rt_layer = ''ApiClient'', capability = 0 \<rparr> \<rparr>,
        module_loaded\<lparr> memoMap := [(''ApiClient'', 0)] \<rparr>)"
    by (simp add: render_initial module_loaded_def makeMemoMap_def ManagedRuntime_make_def)
  have loaded: "memoMap (module_loaded :: (string built_runtime, string MemoMap) process)
     = makeMemoMap"
    by (simp add: module_loaded_def)
  from memo_map_shares_capability [OF first second] loaded first second show ?thesis
    by auto
qed

end
